theory Spec2Isabelle
  imports Main "HOL-Library.Word" "HOL-Library.Sublist"
begin

unbundle bit_operations_syntax

section \<open>Consensus rules (src/consensus/params.h)\<close>

text \<open>
  \<^verbatim>\<open>enum class Fork { POST_ICO };\<close> The enumeration has one value, so the
  \<^verbatim>\<open>default: assert (false)\<close> arm of each \<^verbatim>\<open>switch\<close> below has no value of the type
  that reaches it.
\<close>

datatype Fork = POST_ICO

text \<open>The three classes that implement \<^verbatim>\<open>ConsensusRules\<close>.\<close>

datatype ConsensusRules = MainNetConsensus | TestNetConsensus | RegTestConsensus

text \<open>
  \<^verbatim>\<open>bool ForkInEffect(const Fork type, const unsigned height) const override\<close>:
  \<^verbatim>\<open>unsigned\<close> is a 32-bit word and \<^verbatim>\<open>>=\<close> compares unsigned.
\<close>

definition MainNet_ForkInEffect :: "Fork \<Rightarrow> 32 word \<Rightarrow> bool" where
  "MainNet_ForkInEffect type height = (case type of POST_ICO \<Rightarrow> height \<ge> 1000000)"

definition TestNet_ForkInEffect :: "Fork \<Rightarrow> 32 word \<Rightarrow> bool" where
  "TestNet_ForkInEffect type height = (case type of POST_ICO \<Rightarrow> height \<ge> 1000000)"

definition RegTest_ForkInEffect :: "Fork \<Rightarrow> 32 word \<Rightarrow> bool" where
  "RegTest_ForkInEffect type height = (case type of POST_ICO \<Rightarrow> height \<ge> 500)"

text \<open>The virtual call: the override of the object's class runs.\<close>

fun ForkInEffect :: "ConsensusRules \<Rightarrow> Fork \<Rightarrow> 32 word \<Rightarrow> bool" where
  "ForkInEffect MainNetConsensus type height = MainNet_ForkInEffect type height"
| "ForkInEffect TestNetConsensus type height = TestNet_ForkInEffect type height"
| "ForkInEffect RegTestConsensus type height = RegTest_ForkInEffect type height"

section \<open>Merged-mining data (src/auxpow.h)\<close>

type_synonym byte = "8 word"

text \<open>\<^verbatim>\<open>uint256\<close>: a 256-bit value. \<^verbatim>\<open>int\<close> is a \<open>32 word\<close> read with \<open>sint\<close>.\<close>

type_synonym uint256 = "256 word"

text \<open>
  \<^verbatim>\<open>static const unsigned char pchMergedMiningHeader[] = { 0xfa, 0xbe, 'm', 'm' };\<close>
\<close>

definition pchMergedMiningHeader :: "byte list" where
  "pchMergedMiningHeader = [0xfa, 0xbe, 0x6d, 0x6d]"

text \<open>
  Modelled from the spec: \<^verbatim>\<open>CPureBlockHeader\<close> is declared in primitives/pureheader.h,
  which is not among the sources. The spec gives its fields: "parent header (fixed-size:
  version, previous hash, Merkle root, time, bits, nonce)".
\<close>

record CPureBlockHeader =
  nVersion :: "32 word"
  hashPrevBlock :: uint256
  hashMerkleRoot :: uint256
  nTime :: "32 word"
  nBits :: "32 word"
  nNonce :: "32 word"

text \<open>
  \<^verbatim>\<open>class CBaseMerkleTx\<close>. The transaction behind \<^verbatim>\<open>CTransactionRef\<close> is declared in
  primitives/transaction.h, not among the sources: it is the type parameter \<open>'tx\<close>.
\<close>

record 'tx CBaseMerkleTx =
  tx :: 'tx
  hashBlock :: uint256
  vMerkleBranch :: "uint256 list"
  nIndex :: "32 word"

text \<open>
  \<^verbatim>\<open>void Init() { hashBlock = uint256(); nIndex = -1; }\<close> A default-constructed
  \<^verbatim>\<open>uint256\<close> (uint256.h, not among the sources) is the all-zero value.
\<close>

definition Init :: "'tx CBaseMerkleTx \<Rightarrow> 'tx CBaseMerkleTx" where
  "Init this = this\<lparr>hashBlock := 0, nIndex := - 1\<rparr>"

text \<open>\<^verbatim>\<open>void SetTx(CTransactionRef arg) { tx = std::move(arg); }\<close>\<close>

definition SetTx :: "'tx \<Rightarrow> 'tx CBaseMerkleTx \<Rightarrow> 'tx CBaseMerkleTx" where
  "SetTx arg this = this\<lparr>tx := arg\<rparr>"

text \<open>
  The two constructors. \<open>raw\<close> is the object's storage when the constructor starts: no
  member has an initialiser, so \<^verbatim>\<open>nIndex\<close> holds whatever is there; the vector is
  constructed empty. Then the body runs \<^verbatim>\<open>SetTx\<close> and \<^verbatim>\<open>Init\<close>.
  \<open>MakeTransactionRef\<close> stands for the empty transaction \<^verbatim>\<open>MakeTransactionRef()\<close> makes.
\<close>

definition CBaseMerkleTx_default :: "'tx \<Rightarrow> 'tx CBaseMerkleTx \<Rightarrow> 'tx CBaseMerkleTx" where
  "CBaseMerkleTx_default MakeTransactionRef raw =
     Init (SetTx MakeTransactionRef (raw\<lparr>vMerkleBranch := []\<rparr>))"

definition CBaseMerkleTx_explicit :: "'tx \<Rightarrow> 'tx CBaseMerkleTx \<Rightarrow> 'tx CBaseMerkleTx" where
  "CBaseMerkleTx_explicit arg raw = Init (SetTx arg (raw\<lparr>vMerkleBranch := []\<rparr>))"

text \<open>\<^verbatim>\<open>class CAuxPow\<close>: its four private fields.\<close>

record 'tx CAuxPow =
  coinbaseTx :: "'tx CBaseMerkleTx"
  vChainMerkleBranch :: "uint256 list"
  nChainIndex :: "32 word"
  parentBlock :: CPureBlockHeader

text \<open>
  \<^verbatim>\<open>CAuxPow () = default;\<close> and
  \<^verbatim>\<open>inline explicit CAuxPow (CTransactionRef txIn) : coinbaseTx (txIn) {}\<close>:
  the coinbase proof is constructed by the matching \<^verbatim>\<open>CBaseMerkleTx\<close> constructor, the
  chain branch is an empty vector, \<^verbatim>\<open>nChainIndex\<close> is not initialised and the parent
  header is left to its own constructor (kept from \<open>raw\<close>).
\<close>

definition CAuxPow_default :: "'tx \<Rightarrow> 'tx CAuxPow \<Rightarrow> 'tx CAuxPow" where
  "CAuxPow_default MakeTransactionRef raw =
     raw\<lparr>coinbaseTx := CBaseMerkleTx_default MakeTransactionRef (coinbaseTx raw),
         vChainMerkleBranch := []\<rparr>"

definition CAuxPow_explicit :: "'tx \<Rightarrow> 'tx CAuxPow \<Rightarrow> 'tx CAuxPow" where
  "CAuxPow_explicit txIn raw =
     raw\<lparr>coinbaseTx := CBaseMerkleTx_explicit txIn (coinbaseTx raw),
         vChainMerkleBranch := []\<rparr>"

subsection \<open>The parent block hash\<close>

text \<open>
  \<^verbatim>\<open>inline uint256 getParentBlockHash () const { return parentBlock.GetHash (); }\<close>
  \<open>GetHash\<close> is the header's hash function, declared outside the sources.
\<close>

definition getParentBlockHash :: "(CPureBlockHeader \<Rightarrow> uint256) \<Rightarrow> 'tx CAuxPow \<Rightarrow> uint256" where
  "getParentBlockHash GetHash this = GetHash (parentBlock this)"

subsection \<open>Serialisation\<close>

text \<open>
  \<^verbatim>\<open>READWRITE (x)\<close> writes \<open>x\<close> to the stream when serialising and reads it from the
  stream when unserialising. The stream is a byte list; a reader takes its value from the
  front and returns the rest, or fails (the stream throws) with \<open>None\<close>.
\<close>

type_synonym 'a writer = "'a \<Rightarrow> byte list"
type_synonym 'a reader = "byte list \<Rightarrow> ('a \<times> byte list) option"

text \<open>
  The stream primitives of serialize.h, primitives/transaction.h and
  primitives/pureheader.h, none among the sources, are parameters: how a transaction, a
  \<^verbatim>\<open>uint256\<close>, a vector's length prefix, an \<^verbatim>\<open>int\<close> and a parent header are written and
  read.
\<close>

record 'tx stream_ops =
  write_tx :: "'tx writer"
  read_tx :: "'tx reader"
  write_uint256 :: "uint256 writer"
  read_uint256 :: "uint256 reader"
  write_size :: "nat writer"
  read_size :: "nat reader"
  write_int :: "(32 word) writer"
  read_int :: "(32 word) reader"
  write_header :: "CPureBlockHeader writer"
  read_header :: "CPureBlockHeader reader"

text \<open>
  Modelled from the spec: a \<^verbatim>\<open>std::vector<uint256>\<close> is a "length-prefixed sequence of
  32-byte hashes": the length, then the elements in order.
\<close>

definition write_vector :: "'tx stream_ops \<Rightarrow> (uint256 list) writer" where
  "write_vector S v = write_size S (length v) @ concat (map (write_uint256 S) v)"

fun read_elems :: "'tx stream_ops \<Rightarrow> nat \<Rightarrow> (uint256 list) reader" where
  "read_elems S 0 bs = Some ([], bs)"
| "read_elems S (Suc n) bs =
     (case read_uint256 S bs of
        None \<Rightarrow> None
      | Some (h, bs') \<Rightarrow>
          (case read_elems S n bs' of
             None \<Rightarrow> None
           | Some (hs, bs'') \<Rightarrow> Some (h # hs, bs'')))"

definition read_vector :: "'tx stream_ops \<Rightarrow> (uint256 list) reader" where
  "read_vector S bs =
     (case read_size S bs of
        None \<Rightarrow> None
      | Some (n, bs') \<Rightarrow> read_elems S n bs')"

text \<open>
  \<^verbatim>\<open>CBaseMerkleTx::SerializationOp\<close>:
  \<^verbatim>\<open>READWRITE(tx); READWRITE(hashBlock); READWRITE(vMerkleBranch); READWRITE(nIndex);\<close>
\<close>

definition Serialize_CBaseMerkleTx :: "'tx stream_ops \<Rightarrow> ('tx CBaseMerkleTx) writer" where
  "Serialize_CBaseMerkleTx S this =
     write_tx S (tx this) @ write_uint256 S (hashBlock this)
       @ write_vector S (vMerkleBranch this) @ write_int S (nIndex this)"

definition Unserialize_CBaseMerkleTx :: "'tx stream_ops \<Rightarrow> ('tx CBaseMerkleTx) reader" where
  "Unserialize_CBaseMerkleTx S bs =
     (case read_tx S bs of
        None \<Rightarrow> None
      | Some (t, bs1) \<Rightarrow>
     (case read_uint256 S bs1 of
        None \<Rightarrow> None
      | Some (h, bs2) \<Rightarrow>
     (case read_vector S bs2 of
        None \<Rightarrow> None
      | Some (v, bs3) \<Rightarrow>
     (case read_int S bs3 of
        None \<Rightarrow> None
      | Some (i, bs4) \<Rightarrow>
          Some (\<lparr>tx = t, hashBlock = h, vMerkleBranch = v, nIndex = i\<rparr>, bs4)))))"

text \<open>
  \<^verbatim>\<open>CAuxPow::SerializationOp\<close>:
  \<^verbatim>\<open>READWRITE (coinbaseTx); READWRITE (vChainMerkleBranch); READWRITE (nChainIndex); READWRITE (parentBlock);\<close>
\<close>

definition Serialize_CAuxPow :: "'tx stream_ops \<Rightarrow> ('tx CAuxPow) writer" where
  "Serialize_CAuxPow S this =
     Serialize_CBaseMerkleTx S (coinbaseTx this) @ write_vector S (vChainMerkleBranch this)
       @ write_int S (nChainIndex this) @ write_header S (parentBlock this)"

definition Unserialize_CAuxPow :: "'tx stream_ops \<Rightarrow> ('tx CAuxPow) reader" where
  "Unserialize_CAuxPow S bs =
     (case Unserialize_CBaseMerkleTx S bs of
        None \<Rightarrow> None
      | Some (c, bs1) \<Rightarrow>
     (case read_vector S bs1 of
        None \<Rightarrow> None
      | Some (v, bs2) \<Rightarrow>
     (case read_int S bs2 of
        None \<Rightarrow> None
      | Some (i, bs3) \<Rightarrow>
     (case read_header S bs3 of
        None \<Rightarrow> None
      | Some (p, bs4) \<Rightarrow>
          Some (\<lparr>coinbaseTx = c, vChainMerkleBranch = v, nChainIndex = i,
                 parentBlock = p\<rparr>, bs4)))))"

text \<open>
  A value reads back when its written bytes, followed by anything, are read as the value
  and leave what followed.
\<close>

definition reads_back :: "'a writer \<Rightarrow> 'a reader \<Rightarrow> 'a \<Rightarrow> bool" where
  "reads_back w r x = (\<forall>rest. r (w x @ rest) = Some (x, rest))"

subsection \<open>Fixed-width little-endian integers\<close>

text \<open>The \<open>n\<close> low bytes of a word, least significant first, and the word they spell.\<close>

fun word_to_le :: "nat \<Rightarrow> 'a::len word \<Rightarrow> byte list" where
  "word_to_le 0 w = []"
| "word_to_le (Suc n) w = ucast w # word_to_le n (drop_bit 8 w)"

fun le_to_word :: "byte list \<Rightarrow> 'a::len word" where
  "le_to_word [] = 0"
| "le_to_word (b # bs) = ucast b OR push_bit 8 (le_to_word bs)"

definition read_le :: "nat \<Rightarrow> ('a::len word) reader" where
  "read_le n bs = (if length bs < n then None else Some (le_to_word (take n bs), drop n bs))"

text \<open>
  An instance of the stream primitives, to run the serialisation on: 32-byte hashes and
  4-byte integers least significant byte first, a one-byte length prefix (enough for
  sequences of fewer than 256 elements), the six header fields in order, and one-byte
  stand-ins for transactions.
\<close>

definition read_byte :: "byte reader" where
  "read_byte bs = (case bs of [] \<Rightarrow> None | b # rest \<Rightarrow> Some (b, rest))"

definition le_write_header :: "CPureBlockHeader writer" where
  "le_write_header h =
     word_to_le 4 (nVersion h) @ word_to_le 32 (hashPrevBlock h)
       @ word_to_le 32 (hashMerkleRoot h) @ word_to_le 4 (nTime h)
       @ word_to_le 4 (nBits h) @ word_to_le 4 (nNonce h)"

definition le_read_header :: "CPureBlockHeader reader" where
  "le_read_header bs =
     (if length bs < 80 then None
      else Some (\<lparr>nVersion = le_to_word (take 4 bs),
                  hashPrevBlock = le_to_word (take 32 (drop 4 bs)),
                  hashMerkleRoot = le_to_word (take 32 (drop 36 bs)),
                  nTime = le_to_word (take 4 (drop 68 bs)),
                  nBits = le_to_word (take 4 (drop 72 bs)),
                  nNonce = le_to_word (take 4 (drop 76 bs))\<rparr>, drop 80 bs))"

definition le_stream_ops :: "byte stream_ops" where
  "le_stream_ops =
     \<lparr>write_tx = (\<lambda>t. [t]), read_tx = read_byte,
      write_uint256 = word_to_le 32, read_uint256 = read_le 32,
      write_size = (\<lambda>n. [of_nat n]),
      read_size = (\<lambda>bs. map_option (\<lambda>(b, rest). (unat b, rest)) (read_byte bs)),
      write_int = word_to_le 4, read_int = read_le 4,
      write_header = le_write_header, read_header = le_read_header\<rparr>"

text \<open>An object to run the serialisation on, with branches of two and one hashes.\<close>

definition example_auxpow :: "byte CAuxPow" where
  "example_auxpow =
     \<lparr>coinbaseTx = \<lparr>tx = 7, hashBlock = 5, vMerkleBranch = [1, 2], nIndex = - 1\<rparr>,
      vChainMerkleBranch = [3], nChainIndex = 0,
      parentBlock = \<lparr>nVersion = 1, hashPrevBlock = 9, hashMerkleRoot = 8, nTime = 4,
                     nBits = 6, nNonce = 10\<rparr>\<rparr>"

section \<open>The validity check and the builder (spec sections 4.1 to 4.5)\<close>

text \<open>
  auxpow.h declares \<^verbatim>\<open>CheckMerkleBranch\<close>, \<^verbatim>\<open>check\<close>, \<^verbatim>\<open>getExpectedIndex\<close> and
  \<^verbatim>\<open>createAuxPow\<close>; their definitions (auxpow.cpp) are not among the sources. The
  definitions of this section follow the spec's description of each.
\<close>

text \<open>
  Modelled from the spec: the coinbase transaction as far as this core reads it, "the
  coinbase transaction's input script" (primitives/transaction.h is missing).
\<close>

record CTransaction =
  scriptSig :: "byte list"

text \<open>
  Modelled from the spec: the external primitives the check and the builder use (hashing
  is missing from the sources): "the chain's standard double-hash primitive" on a pair of
  hashes \<open>hash(a || b)\<close>, the hash of a transaction, the hash of a header, and "the
  parent header's own embedded chain identifier".
\<close>

record primitives =
  Hash :: "uint256 \<Rightarrow> uint256 \<Rightarrow> uint256"
  TxHash :: "CTransaction \<Rightarrow> uint256"
  GetHash :: "CPureBlockHeader \<Rightarrow> uint256"
  GetChainId :: "CPureBlockHeader \<Rightarrow> 32 word"

text \<open>
  Modelled from the spec: what the check reads from the consensus parameters, "a boolean
  (or height-gated) flag enabling strict loop-guard checking; the bounded maximum for
  chain-branch length" (\<^verbatim>\<open>Consensus::Params\<close> in src/consensus/params.h has neither
  field).
\<close>

record check_params =
  fStrictChainId :: bool
  maxChainBranch :: nat

text \<open>The error taxonomy of spec section 7 that the check can return.\<close>

datatype AuxPowError =
    MarkerMissing | MarkerDuplicated | Truncated | ChainIdLoopback | BranchTooLong
  | RootMismatch | SizeMismatch | IndexMismatch | CoinbaseLinkMismatch

text \<open>
  Modelled from the spec (4.1, the body of \<^verbatim>\<open>CheckMerkleBranch\<close> is missing): "iterate
  over branch in order; maintain index as a bit sequence consumed from the
  least-significant bit. At each step, if the current low bit is 0, combine
  hash(leaf || branch[i]); if 1, combine hash(branch[i] || leaf) [...]; set leaf to the
  result and shift index right by one. After exhausting branch, return leaf."
\<close>

fun CheckMerkleBranch ::
  "(uint256 \<Rightarrow> uint256 \<Rightarrow> uint256) \<Rightarrow> uint256 \<Rightarrow> uint256 list \<Rightarrow> 32 word \<Rightarrow> uint256" where
  "CheckMerkleBranch H leaf [] idx = leaf"
| "CheckMerkleBranch H leaf (b # branch) idx =
     CheckMerkleBranch H (if \<not> bit idx 0 then H leaf b else H b leaf) branch
       (drop_bit 1 idx)"

text \<open>
  Modelled from the spec (4.2, the body of \<^verbatim>\<open>getExpectedIndex\<close> is missing):
  "r = nonce; r = r*1103515245 + 12345 (modulo 2^32); r = r + chainId;
  r = r*1103515245 + 12345 (modulo 2^32); return r mod 2^height". The arithmetic is the
  spec's, on integers; the argument and result types are the header's
  \<^verbatim>\<open>static int getExpectedIndex (uint32_t nNonce, int nChainId, unsigned h)\<close>, so the
  result is stored in an \<^verbatim>\<open>int\<close> and read with \<open>sint\<close>.
\<close>

definition getExpectedIndex :: "32 word \<Rightarrow> 32 word \<Rightarrow> 32 word \<Rightarrow> 32 word" where
  "getExpectedIndex nonce chainId h =
     (let r = uint nonce;
          r = (r * 1103515245 + 12345) mod 2 ^ 32;
          r = r + sint chainId;
          r = (r * 1103515245 + 12345) mod 2 ^ 32
      in word_of_int (r mod 2 ^ unat h))"

text \<open>
  Modelled from the spec (4.3): "search the script bytes for the fixed merge-mining marker
  sequence. Exactly one occurrence must exist; zero occurrences is MarkerMissing, more than
  one is MarkerDuplicated [...]. Immediately following the marker: a 32-byte root (fixed
  byte order), a 4-byte little-endian declared tree size, a 4-byte little-endian nonce. If
  fewer than 40 bytes remain after the marker, fail with Truncated." (The spec's
  operation \<open>extract\<close>.)
\<close>

fun occurrences :: "'a list \<Rightarrow> 'a list \<Rightarrow> nat" where
  "occurrences pat [] = 0"
| "occurrences pat (x # xs) = (if prefix pat (x # xs) then 1 else 0) + occurrences pat xs"

fun after_first :: "'a list \<Rightarrow> 'a list \<Rightarrow> 'a list option" where
  "after_first pat [] = None"
| "after_first pat (x # xs) =
     (if prefix pat (x # xs) then Some (drop (length pat) (x # xs)) else after_first pat xs)"

record Commitment =
  declared_root :: "byte list"
  declared_size :: "32 word"
  declared_nonce :: "32 word"

definition extract_commitment :: "byte list \<Rightarrow> AuxPowError + Commitment" where
  "extract_commitment script =
     (if occurrences pchMergedMiningHeader script = 0 then Inl MarkerMissing
      else if occurrences pchMergedMiningHeader script > 1 then Inl MarkerDuplicated
      else
        (case after_first pchMergedMiningHeader script of
           None \<Rightarrow> Inl MarkerMissing
         | Some rest \<Rightarrow>
             if length rest < 40 then Inl Truncated
             else Inr \<lparr>declared_root = take 32 rest,
                       declared_size = le_to_word (take 4 (drop 32 rest)),
                       declared_nonce = le_to_word (take 4 (drop 36 rest))\<rparr>))"

text \<open>
  The 32 bytes of a hash as the coinbase script holds them. The spec fixes a byte order
  without naming it; the check and the builder use the same one, least significant byte
  first here.
\<close>

definition root_bytes :: "uint256 \<Rightarrow> byte list" where
  "root_bytes h = word_to_le 32 h"

text \<open>
  Modelled from the spec (4.4, the body of \<^verbatim>\<open>check\<close> is missing): the ten ordered
  checks, first failure wins, with the spec's result type \<open>Result<(), AuxPowError>\<close>
  (\<open>Inr ()\<close> is success).
\<close>

definition check ::
  "primitives \<Rightarrow> CTransaction CAuxPow \<Rightarrow> uint256 \<Rightarrow> 32 word \<Rightarrow> check_params
    \<Rightarrow> AuxPowError + unit" where
  "check E this auxBlockHash chainId params =
     (if fStrictChainId params \<and> GetChainId E (parentBlock this) = chainId
        then Inl ChainIdLoopback
      else if length (vChainMerkleBranch this) > maxChainBranch params
        then Inl BranchTooLong
      else
        (let chainRoot = CheckMerkleBranch (Hash E) auxBlockHash (vChainMerkleBranch this)
                           (nChainIndex this)
         in case extract_commitment (scriptSig (tx (coinbaseTx this))) of
              Inl e \<Rightarrow> Inl e
            | Inr commitment \<Rightarrow>
                if declared_root commitment \<noteq> root_bytes chainRoot then Inl RootMismatch
                else if unat (declared_size commitment) \<noteq> 2 ^ length (vChainMerkleBranch this)
                  then Inl SizeMismatch
                else if nChainIndex this \<noteq>
                          getExpectedIndex (declared_nonce commitment) chainId
                            (of_nat (length (vChainMerkleBranch this)))
                  then Inl IndexMismatch
                else
                  (let coinbaseRoot =
                         CheckMerkleBranch (Hash E) (TxHash E (tx (coinbaseTx this)))
                           (vMerkleBranch (coinbaseTx this)) (nIndex (coinbaseTx this))
                   in if coinbaseRoot \<noteq> hashMerkleRoot (parentBlock this)
                        then Inl CoinbaseLinkMismatch
                      else Inr ())))"

text \<open>
  Modelled from the spec (4.5, the body of \<^verbatim>\<open>createAuxPow\<close> is missing): "chain branch =
  empty [...]; constructs a synthetic coinbase script embedding marker + root(= header
  hash) + size(1) + nonce(0); wraps it in a one-leaf coinbase Merkle proof (empty branch,
  index 0); produces a parent header whose Merkle root is consistent with that single
  synthetic coinbase." The object is made by the \<^verbatim>\<open>CAuxPow (CTransactionRef)\<close>
  constructor above; \<open>raw\<close> is its storage, whose parent header supplies the header fields
  the spec leaves open.
\<close>

definition commitment_script :: "uint256 \<Rightarrow> 32 word \<Rightarrow> 32 word \<Rightarrow> byte list" where
  "commitment_script root sz nonce =
     pchMergedMiningHeader @ root_bytes root @ word_to_le 4 sz @ word_to_le 4 nonce"

definition createAuxPow ::
  "primitives \<Rightarrow> CTransaction CAuxPow \<Rightarrow> CPureBlockHeader \<Rightarrow> CTransaction CAuxPow" where
  "createAuxPow E raw header =
     (let coinbase = \<lparr>scriptSig = commitment_script (GetHash E header) 1 0\<rparr>;
          auxpow = CAuxPow_explicit coinbase raw
      in auxpow\<lparr>coinbaseTx := (coinbaseTx auxpow)\<lparr>nIndex := 0\<rparr>,
                nChainIndex := 0,
                parentBlock := (parentBlock raw)\<lparr>hashMerkleRoot := TxHash E coinbase\<rparr>\<rparr>)"

subsection \<open>Inputs to run the check on\<close>

text \<open>
  Stand-ins for the missing hash functions, chosen so that every value can be computed:
  the pair hash is an arithmetic mix, the hash of a transaction reads the script from
  byte 40 on (the nonce of a commitment script), the hash of a header is its nonce field
  and the chain identifier of a header is the upper half of its version.
\<close>

definition example_primitives :: primitives where
  "example_primitives =
     \<lparr>Hash = (\<lambda>a b. a + 3 * b + 1),
      TxHash = (\<lambda>t. le_to_word (drop 40 (scriptSig t)) + 77),
      GetHash = (\<lambda>h. ucast (nNonce h)),
      GetChainId = (\<lambda>h. drop_bit 16 (nVersion h))\<rparr>"

definition example_params :: check_params where
  "example_params = \<lparr>fStrictChainId = True, maxChainBranch = 30\<rparr>"

definition example_header :: CPureBlockHeader where
  "example_header = \<lparr>nVersion = 1, hashPrevBlock = 0, hashMerkleRoot = 0, nTime = 0,
                      nBits = 0, nNonce = 0x1234\<rparr>"

text \<open>
  A header whose (stand-in) hash is \<open>0x6d6dbefa\<close>: its 32 bytes start with the four
  marker bytes \<open>fa be 6d 6d\<close>.
\<close>

definition marker_header :: CPureBlockHeader where
  "marker_header = example_header\<lparr>nNonce := 0x6d6dbefa\<rparr>"

text \<open>Storage for a new object, holding values that construction has to overwrite.\<close>

definition example_raw :: "CTransaction CAuxPow" where
  "example_raw =
     \<lparr>coinbaseTx = \<lparr>tx = \<lparr>scriptSig = []\<rparr>, hashBlock = 7, vMerkleBranch = [1], nIndex = 5\<rparr>,
      vChainMerkleBranch = [2], nChainIndex = 9,
      parentBlock = \<lparr>nVersion = 1, hashPrevBlock = 0, hashMerkleRoot = 0, nTime = 0,
                      nBits = 0, nNonce = 0\<rparr>\<rparr>"

text \<open>
  The height-0 scenario of spec section 8: empty chain branch, chain index 0, a coinbase
  script embedding root \<open>X\<close>, size 1 and the given nonce, a one-leaf coinbase proof, and a
  parent header whose Merkle root is the hash of the coinbase with nonce 0. With a nonce
  other than 0 only the embedded nonce differs from the valid proof.
\<close>

definition height0_auxpow :: "primitives \<Rightarrow> uint256 \<Rightarrow> 32 word \<Rightarrow> CTransaction CAuxPow" where
  "height0_auxpow E X nonce =
     \<lparr>coinbaseTx = \<lparr>tx = \<lparr>scriptSig = commitment_script X 1 nonce\<rparr>, hashBlock = 0,
                     vMerkleBranch = [], nIndex = 0\<rparr>,
      vChainMerkleBranch = [], nChainIndex = 0,
      parentBlock = \<lparr>nVersion = 1, hashPrevBlock = 0,
                      hashMerkleRoot = TxHash E \<lparr>scriptSig = commitment_script X 1 0\<rparr>,
                      nTime = 0, nBits = 0, nNonce = 0\<rparr>\<rparr>"

section \<open>Theorems\<close>

subsection \<open>Little-endian fields\<close>

lemma length_word_to_le: "length (word_to_le n w) = n"
  by (induction n arbitrary: w) simp_all

lemma le_to_word_word_to_le: "le_to_word (word_to_le n w) = take_bit (8 * n) w"
proof (induction n arbitrary: w)
  case 0
  show ?case by simp
next
  case (Suc n)
  have "ucast (ucast w :: byte) OR push_bit 8 (take_bit (8 * n) (drop_bit 8 w))
          = take_bit (8 * Suc n) w"
    by (rule bit_word_eqI) (auto simp: bit_simps)
  with Suc show ?case by simp
qed

lemma read_le_word_to_le:
  assumes "LENGTH('a::len) \<le> 8 * n"
  shows "read_le n (word_to_le n (w :: 'a word) @ rest) = Some (w, rest)"
proof -
  have "take_bit (8 * n) w = w"
    using assms by (simp add: take_bit_word_eq_self)
  then show ?thesis
    by (simp add: read_le_def length_word_to_le le_to_word_word_to_le)
qed

lemma reads_back_uint256: "reads_back (word_to_le 32) (read_le 32) (h :: uint256)"
  by (simp add: reads_back_def read_le_word_to_le)

lemma reads_back_int: "reads_back (word_to_le 4) (read_le 4) (i :: 32 word)"
  by (simp add: reads_back_def read_le_word_to_le)

lemma reads_back_header: "reads_back le_write_header le_read_header p"
proof -
  have "le_read_header (le_write_header p @ rest) = Some (p, rest)" for rest
    unfolding le_read_header_def le_write_header_def
    by (simp add: length_word_to_le le_to_word_word_to_le take_bit_word_eq_self)
  then show ?thesis by (simp add: reads_back_def)
qed

subsection \<open>Serialisation\<close>

lemma read_elems_concat:
  assumes "list_all (reads_back (write_uint256 S) (read_uint256 S)) v"
  shows "read_elems S (length v) (concat (map (write_uint256 S) v) @ rest) = Some (v, rest)"
  using assms
proof (induction v)
  case Nil
  show ?case by simp
next
  case (Cons h hs)
  from Cons.prems have h: "reads_back (write_uint256 S) (read_uint256 S) h"
    and hs: "list_all (reads_back (write_uint256 S) (read_uint256 S)) hs"
    by simp_all
  from h have "read_uint256 S (write_uint256 S h @ concat (map (write_uint256 S) hs) @ rest)
      = Some (h, concat (map (write_uint256 S) hs) @ rest)"
    by (simp add: reads_back_def)
  with Cons.IH [OF hs] show ?case by simp
qed

lemma read_vector_write_vector:
  assumes "reads_back (write_size S) (read_size S) (length v)"
    and "list_all (reads_back (write_uint256 S) (read_uint256 S)) v"
  shows "read_vector S (write_vector S v @ rest) = Some (v, rest)"
  using assms(1) read_elems_concat [OF assms(2)]
  by (simp add: read_vector_def write_vector_def reads_back_def)

lemma Unserialize_Serialize_CBaseMerkleTx:
  assumes "reads_back (write_tx S) (read_tx S) (tx m)"
    and "reads_back (write_uint256 S) (read_uint256 S) (hashBlock m)"
    and "reads_back (write_size S) (read_size S) (length (vMerkleBranch m))"
    and "list_all (reads_back (write_uint256 S) (read_uint256 S)) (vMerkleBranch m)"
    and "reads_back (write_int S) (read_int S) (nIndex m)"
  shows "Unserialize_CBaseMerkleTx S (Serialize_CBaseMerkleTx S m @ rest) = Some (m, rest)"
proof -
  have v: "\<And>r. read_vector S (write_vector S (vMerkleBranch m) @ r) = Some (vMerkleBranch m, r)"
    by (rule read_vector_write_vector [OF assms(3,4)])
  from assms(1,2,5) v show ?thesis
    by (simp add: Unserialize_CBaseMerkleTx_def Serialize_CBaseMerkleTx_def reads_back_def)
qed

text \<open>
  C1. Serialising a \<^verbatim>\<open>CAuxPow\<close> writes, in this order, the coinbase transaction, the
  block hash of the coinbase proof, the length-prefixed coinbase Merkle branch, the
  coinbase path index, the length-prefixed chain Merkle branch, the chain path index and
  the parent header; and unserialising those bytes (followed by anything) gives back the
  same object and leaves what followed. The stream primitives are parameters: the theorem
  holds for every \<^verbatim>\<open>CAuxPow\<close> whose transaction, hashes, branch lengths, indices and header
  each read back as written.
\<close>

theorem CAuxPow_serialization_layout_roundtrip:
  assumes "reads_back (write_tx S) (read_tx S) (tx (coinbaseTx a))"
    and "reads_back (write_uint256 S) (read_uint256 S) (hashBlock (coinbaseTx a))"
    and "reads_back (write_size S) (read_size S) (length (vMerkleBranch (coinbaseTx a)))"
    and "list_all (reads_back (write_uint256 S) (read_uint256 S)) (vMerkleBranch (coinbaseTx a))"
    and "reads_back (write_int S) (read_int S) (nIndex (coinbaseTx a))"
    and "reads_back (write_size S) (read_size S) (length (vChainMerkleBranch a))"
    and "list_all (reads_back (write_uint256 S) (read_uint256 S)) (vChainMerkleBranch a)"
    and "reads_back (write_int S) (read_int S) (nChainIndex a)"
    and "reads_back (write_header S) (read_header S) (parentBlock a)"
  shows "Serialize_CAuxPow S a =
           write_tx S (tx (coinbaseTx a))
           @ write_uint256 S (hashBlock (coinbaseTx a))
           @ (write_size S (length (vMerkleBranch (coinbaseTx a)))
                @ concat (map (write_uint256 S) (vMerkleBranch (coinbaseTx a))))
           @ write_int S (nIndex (coinbaseTx a))
           @ (write_size S (length (vChainMerkleBranch a))
                @ concat (map (write_uint256 S) (vChainMerkleBranch a)))
           @ write_int S (nChainIndex a)
           @ write_header S (parentBlock a)
       \<and> (\<forall>rest. Unserialize_CAuxPow S (Serialize_CAuxPow S a @ rest) = Some (a, rest))"
proof (intro conjI allI)
  show "Serialize_CAuxPow S a =
           write_tx S (tx (coinbaseTx a))
           @ write_uint256 S (hashBlock (coinbaseTx a))
           @ (write_size S (length (vMerkleBranch (coinbaseTx a)))
                @ concat (map (write_uint256 S) (vMerkleBranch (coinbaseTx a))))
           @ write_int S (nIndex (coinbaseTx a))
           @ (write_size S (length (vChainMerkleBranch a))
                @ concat (map (write_uint256 S) (vChainMerkleBranch a)))
           @ write_int S (nChainIndex a)
           @ write_header S (parentBlock a)"
    by (simp add: Serialize_CAuxPow_def Serialize_CBaseMerkleTx_def write_vector_def)
next
  fix rest
  have c: "\<And>r. Unserialize_CBaseMerkleTx S (Serialize_CBaseMerkleTx S (coinbaseTx a) @ r)
             = Some (coinbaseTx a, r)"
    by (rule Unserialize_Serialize_CBaseMerkleTx [OF assms(1-5)])
  have v: "\<And>r. read_vector S (write_vector S (vChainMerkleBranch a) @ r)
             = Some (vChainMerkleBranch a, r)"
    by (rule read_vector_write_vector [OF assms(6,7)])
  from assms(8,9) c v
  show "Unserialize_CAuxPow S (Serialize_CAuxPow S a @ rest) = Some (a, rest)"
    by (simp add: Unserialize_CAuxPow_def Serialize_CAuxPow_def reads_back_def)
qed

theorem CAuxPow_serialization_layout_roundtrip_witness:
  "Serialize_CAuxPow le_stream_ops example_auxpow =
       [7] @ word_to_le 32 (5 :: uint256)
       @ ([2] @ word_to_le 32 (1 :: uint256) @ word_to_le 32 (2 :: uint256))
       @ word_to_le 4 (- 1 :: 32 word)
       @ ([1] @ word_to_le 32 (3 :: uint256))
       @ word_to_le 4 (0 :: 32 word)
       @ le_write_header (parentBlock example_auxpow)
   \<and> length (Serialize_CAuxPow le_stream_ops example_auxpow) = 219
   \<and> (\<forall>rest. Unserialize_CAuxPow le_stream_ops
                (Serialize_CAuxPow le_stream_ops example_auxpow @ rest)
              = Some (example_auxpow, rest))"
proof -
  let ?S = le_stream_ops and ?a = example_auxpow
  have sz: "reads_back (write_size ?S) (read_size ?S) n" if "n < 256" for n
    using that
    by (simp add: reads_back_def le_stream_ops_def read_byte_def unsigned_of_nat
        take_bit_nat_eq_self)
  have h: "reads_back (write_uint256 ?S) (read_uint256 ?S) x" for x
    by (simp add: le_stream_ops_def reads_back_uint256)
  have i: "reads_back (write_int ?S) (read_int ?S) x" for x
    by (simp add: le_stream_ops_def reads_back_int)
  have 1: "reads_back (write_tx ?S) (read_tx ?S) (tx (coinbaseTx ?a))"
    by (simp add: reads_back_def le_stream_ops_def read_byte_def)
  have 3: "reads_back (write_size ?S) (read_size ?S) (length (vMerkleBranch (coinbaseTx ?a)))"
    by (rule sz) (simp add: example_auxpow_def)
  have 4: "list_all (reads_back (write_uint256 ?S) (read_uint256 ?S))
             (vMerkleBranch (coinbaseTx ?a))"
    by (simp add: example_auxpow_def h)
  have 6: "reads_back (write_size ?S) (read_size ?S) (length (vChainMerkleBranch ?a))"
    by (rule sz) (simp add: example_auxpow_def)
  have 7: "list_all (reads_back (write_uint256 ?S) (read_uint256 ?S)) (vChainMerkleBranch ?a)"
    by (simp add: example_auxpow_def h)
  have 9: "reads_back (write_header ?S) (read_header ?S) (parentBlock ?a)"
    by (simp add: le_stream_ops_def reads_back_header)
  note main = CAuxPow_serialization_layout_roundtrip [OF 1 h 3 4 i 6 7 i 9]
  have layout: "Serialize_CAuxPow ?S ?a =
       [7] @ word_to_le 32 (5 :: uint256)
       @ ([2] @ word_to_le 32 (1 :: uint256) @ word_to_le 32 (2 :: uint256))
       @ word_to_le 4 (- 1 :: 32 word)
       @ ([1] @ word_to_le 32 (3 :: uint256))
       @ word_to_le 4 (0 :: 32 word)
       @ le_write_header (parentBlock ?a)"
    using main [THEN conjunct1] by (simp add: le_stream_ops_def example_auxpow_def)
  have "length (Serialize_CAuxPow ?S ?a) = 219"
    unfolding layout by (simp add: length_word_to_le le_write_header_def)
  with layout main [THEN conjunct2] show ?thesis by blast
qed

subsection \<open>Construction\<close>

text \<open>
  C9. A default-constructed \<^verbatim>\<open>CBaseMerkleTx\<close> has \<^verbatim>\<open>hashBlock\<close> equal to the all-zero
  hash and \<^verbatim>\<open>nIndex\<close> equal to -1, whatever its storage held before; so has the coinbase
  proof inside a \<^verbatim>\<open>CAuxPow\<close> made by either constructor. As a signed value the index is
  negative: it is outside the path indices (at least 0) that Merkle recomputation takes.
\<close>

theorem constructed_hashBlock_zero_nIndex_minus_one:
  "hashBlock (CBaseMerkleTx_default e raw) = 0
   \<and> nIndex (CBaseMerkleTx_default e raw) = - 1
   \<and> sint (nIndex (CBaseMerkleTx_default e raw)) = - 1
   \<and> \<not> 0 \<le> sint (nIndex (CBaseMerkleTx_default e raw))
   \<and> hashBlock (coinbaseTx (CAuxPow_default e raw')) = 0
   \<and> sint (nIndex (coinbaseTx (CAuxPow_default e raw'))) = - 1
   \<and> hashBlock (coinbaseTx (CAuxPow_explicit txIn raw')) = 0
   \<and> sint (nIndex (coinbaseTx (CAuxPow_explicit txIn raw'))) = - 1"
  by (simp add: CBaseMerkleTx_default_def CBaseMerkleTx_explicit_def CAuxPow_default_def
      CAuxPow_explicit_def Init_def SetTx_def)

text \<open>
  C10. For each of the three consensus classes, \<^verbatim>\<open>ForkInEffect(Fork::POST_ICO, height)\<close>
  is monotone in the height: once it holds at \<open>h\<close> it holds at every \<open>h' \<ge> h\<close>
  (heights compared as the unsigned 32-bit values the code receives).
\<close>

theorem ForkInEffect_monotone:
  assumes "ForkInEffect rules POST_ICO h" and "h \<le> h'"
  shows "ForkInEffect rules POST_ICO h'"
proof (cases rules)
  case MainNetConsensus
  with assms show ?thesis by (simp add: MainNet_ForkInEffect_def)
next
  case TestNetConsensus
  with assms show ?thesis by (simp add: TestNet_ForkInEffect_def)
next
  case RegTestConsensus
  with assms show ?thesis by (simp add: RegTest_ForkInEffect_def)
qed

theorem ForkInEffect_monotone_witness:
  "ForkInEffect RegTestConsensus POST_ICO 500 \<and> (500 :: 32 word) \<le> 70000
    \<and> ForkInEffect RegTestConsensus POST_ICO 70000"
proof -
  have a: "ForkInEffect RegTestConsensus POST_ICO 500"
    by (simp add: RegTest_ForkInEffect_def)
  have b: "(500 :: 32 word) \<le> 70000" by simp
  from ForkInEffect_monotone [OF a b] a b show ?thesis by simp
qed

subsection \<open>The expected slot\<close>

lemma getExpectedIndex_height0: "getExpectedIndex nonce chainId 0 = 0"
  by (simp add: getExpectedIndex_def)

text \<open>
  C5. For every height from 0 to 31 and every nonce and chain id, the value
  \<^verbatim>\<open>getExpectedIndex\<close> returns, read as the signed \<^verbatim>\<open>int\<close> it is declared to return, is at
  least 0 and below \<open>2 ^ height\<close>.
\<close>

theorem getExpectedIndex_range:
  assumes "unat h \<le> 31"
  shows "0 \<le> sint (getExpectedIndex nonce chainId h)
       \<and> sint (getExpectedIndex nonce chainId h) < 2 ^ unat h"
proof -
  define r :: int where
    "r = (((uint nonce * 1103515245 + 12345) mod 2 ^ 32 + sint chainId) * 1103515245 + 12345)
           mod 2 ^ 32"
  define m where "m = r mod 2 ^ unat h"
  have g: "getExpectedIndex nonce chainId h = word_of_int m"
    by (simp add: getExpectedIndex_def Let_def r_def m_def)
  have m0: "0 \<le> m" and m1: "m < 2 ^ unat h"
    by (simp_all add: m_def)
  have "(2::int) ^ unat h \<le> 2 ^ 31"
    using assms by (intro power_increasing) simp_all
  with m1 have m2: "m < 2 ^ 31" by linarith
  have "sint (word_of_int m :: 32 word) = m"
    using m0 m2 by (simp add: sint_sbintrunc' signed_take_bit_int_eq_self)
  with g m0 m1 show ?thesis by simp
qed

theorem getExpectedIndex_range_witness:
  "unat (31 :: 32 word) \<le> 31
   \<and> 0 \<le> sint (getExpectedIndex 1 0 31)
   \<and> sint (getExpectedIndex 1 0 31) < 2 ^ unat (31 :: 32 word)
   \<and> sint (getExpectedIndex 1 0 31) = 377401575"
proof -
  have h: "unat (31 :: 32 word) \<le> 31" by simp
  have v: "sint (getExpectedIndex 1 0 31) = 377401575"
    by (simp add: getExpectedIndex_def)
  from getExpectedIndex_range [OF h, of 1 0] h v show ?thesis by simp
qed

subsection \<open>The commitment in the coinbase script\<close>

lemma occurrences_without_last:
  assumes "pat \<noteq> []" and "last pat \<notin> set zs"
  shows "occurrences pat zs = 0"
  using assms(2)
proof (induction zs)
  case Nil
  show ?case by simp
next
  case (Cons z zs)
  have "\<not> prefix pat (z # zs)"
  proof
    assume "prefix pat (z # zs)"
    then have "set pat \<subseteq> set (z # zs)" by (rule set_mono_prefix)
    moreover have "last pat \<in> set pat" using assms(1) by simp
    ultimately show False using Cons.prems by blast
  qed
  with Cons show ?case by simp
qed

lemma prefix_append_without_last:
  assumes "pat \<noteq> []" and "last pat \<notin> set zs" and "prefix pat (ys @ zs)"
  shows "prefix pat ys"
proof -
  from assms(3) consider "prefix pat ys" | us where "pat = ys @ us" "prefix us zs"
    by (auto simp: prefix_append)
  then show ?thesis
  proof cases
    case 1
    then show ?thesis .
  next
    case 2
    show ?thesis
    proof (cases "us = []")
      case True
      with 2 show ?thesis by simp
    next
      case False
      with 2 have "last pat = last us" by simp
      moreover have "last us \<in> set us" using False by simp
      moreover have "set us \<subseteq> set zs" using 2(2) by (rule set_mono_prefix)
      ultimately show ?thesis using assms(2) by auto
    qed
  qed
qed

lemma occurrences_append_without_last:
  assumes "pat \<noteq> []" and "last pat \<notin> set zs"
  shows "occurrences pat (ys @ zs) = occurrences pat ys"
proof (induction ys)
  case Nil
  show ?case using occurrences_without_last [OF assms] by simp
next
  case (Cons y ys)
  have "prefix pat ((y # ys) @ zs) \<longleftrightarrow> prefix pat (y # ys)"
    using prefix_append_without_last [OF assms, of "y # ys"] prefix_prefix [of pat "y # ys" zs]
    by auto
  with Cons show ?case by simp
qed

text \<open>
  The script the builder makes holds the marker once at its start, and once more for each
  time the 32 bytes of the root hold it: the size and nonce fields that follow are bytes 0
  and 1 and cannot complete a marker.
\<close>

lemma occurrences_commitment_script:
  "occurrences pchMergedMiningHeader (commitment_script root 1 0)
     = Suc (occurrences pchMergedMiningHeader (root_bytes root))"
proof -
  have tail: "word_to_le 4 (1 :: 32 word) @ word_to_le 4 (0 :: 32 word)
                = [1, 0, 0, 0, 0, 0, 0, 0]"
    by (simp add: numeral_eq_Suc)
  have "occurrences pchMergedMiningHeader (root_bytes root @ [1, 0, 0, 0, 0, 0, 0, 0])
          = occurrences pchMergedMiningHeader (root_bytes root)"
    by (rule occurrences_append_without_last) (simp_all add: pchMergedMiningHeader_def)
  then show ?thesis
    unfolding commitment_script_def
    by (simp add: pchMergedMiningHeader_def tail del: word_to_le.simps)
qed

lemma after_first_commitment_script:
  "after_first pchMergedMiningHeader (commitment_script root sz nonce)
     = Some (root_bytes root @ word_to_le 4 sz @ word_to_le 4 nonce)"
  by (simp add: commitment_script_def pchMergedMiningHeader_def)

lemma extract_commitment_script:
  assumes "occurrences pchMergedMiningHeader (root_bytes root) = 0"
  shows "extract_commitment (commitment_script root 1 0)
           = Inr \<lparr>declared_root = root_bytes root, declared_size = 1, declared_nonce = 0\<rparr>"
proof -
  have le1: "le_to_word (word_to_le 4 (1 :: 32 word)) = (1 :: 32 word)"
    and le0: "le_to_word (word_to_le 4 (0 :: 32 word)) = (0 :: 32 word)"
    by (simp_all add: numeral_eq_Suc)
  have len: "length (root_bytes root) = 32"
    by (simp add: root_bytes_def length_word_to_le)
  have l4: "length (word_to_le 4 w) = 4" for w :: "32 word"
    by (rule length_word_to_le)
  show ?thesis
    using assms le1 le0
    by (simp add: extract_commitment_def occurrences_commitment_script
        after_first_commitment_script len l4 del: word_to_le.simps)
qed

subsection \<open>Building a proof and checking it\<close>

text \<open>
  C2, as stated: for every header and every chain id that does not trigger the loop guard,
  the proof \<^verbatim>\<open>createAuxPow\<close> builds passes \<^verbatim>\<open>check\<close>. It fails for a header whose hash
  holds the four marker bytes: the script then has the marker twice and the check answers
  \<open>MarkerDuplicated\<close>. Here the loop guard is not triggered (the parent's chain id is 0,
  the chain id checked is 1).
\<close>

theorem createAuxPow_check_counterexample:
  "\<not> (fStrictChainId example_params
        \<and> GetChainId example_primitives
             (parentBlock (createAuxPow example_primitives example_raw marker_header)) = 1)
   \<and> check example_primitives (createAuxPow example_primitives example_raw marker_header)
        (GetHash example_primitives marker_header) 1 example_params
       = Inl MarkerDuplicated"
  by code_simp

text \<open>
  C2, amended: for every header whose hash does not hold the marker bytes, and every chain
  id that does not trigger the loop guard, the proof \<^verbatim>\<open>createAuxPow\<close> builds for the
  header passes \<^verbatim>\<open>check\<close> against the header's hash.
\<close>

theorem createAuxPow_passes_check:
  assumes "\<not> (fStrictChainId P
                \<and> GetChainId E (parentBlock (createAuxPow E raw header)) = chainId)"
    and "occurrences pchMergedMiningHeader (root_bytes (GetHash E header)) = 0"
  shows "check E (createAuxPow E raw header) (GetHash E header) chainId P = Inr ()"
proof -
  let ?a = "createAuxPow E raw header"
  have script: "scriptSig (tx (coinbaseTx ?a)) = commitment_script (GetHash E header) 1 0"
    by (simp add: createAuxPow_def Let_def CAuxPow_explicit_def CBaseMerkleTx_explicit_def
        Init_def SetTx_def)
  have fields: "vChainMerkleBranch ?a = []" "nChainIndex ?a = 0"
    "vMerkleBranch (coinbaseTx ?a) = []"
    "hashMerkleRoot (parentBlock ?a) = TxHash E (tx (coinbaseTx ?a))"
    by (simp_all add: createAuxPow_def Let_def CAuxPow_explicit_def CBaseMerkleTx_explicit_def
        Init_def SetTx_def)
  from assms(1) show ?thesis
    unfolding check_def
    by (simp add: fields script extract_commitment_script [OF assms(2)] Let_def
        getExpectedIndex_height0)
qed

theorem createAuxPow_passes_check_witness:
  "\<not> (fStrictChainId example_params
        \<and> GetChainId example_primitives
             (parentBlock (createAuxPow example_primitives example_raw example_header)) = 1)
   \<and> occurrences pchMergedMiningHeader
        (root_bytes (GetHash example_primitives example_header)) = 0
   \<and> check example_primitives (createAuxPow example_primitives example_raw example_header)
        (GetHash example_primitives example_header) 1 example_params
       = Inr ()"
proof -
  have g: "\<not> (fStrictChainId example_params
        \<and> GetChainId example_primitives
             (parentBlock (createAuxPow example_primitives example_raw example_header)) = 1)"
    by code_simp
  have m: "occurrences pchMergedMiningHeader
        (root_bytes (GetHash example_primitives example_header)) = 0"
    by code_simp
  from createAuxPow_passes_check [OF g m] g m show ?thesis by blast
qed

subsection \<open>The embedded nonce at height 0\<close>

text \<open>
  C6, as stated: in the height-0 scenario, changing the embedded nonce from 0 to another
  value, with the chain index left at 0, makes \<^verbatim>\<open>check\<close> return \<open>IndexMismatch\<close>. With
  nonce 0 the check succeeds; with nonce 1 and nothing else changed it does not return
  \<open>IndexMismatch\<close>: the index check passes again and the changed coinbase no longer hashes
  to the parent's Merkle root.
\<close>

theorem height0_nonce_counterexample:
  "check example_primitives (height0_auxpow example_primitives 0x1234 0) 0x1234 1
       example_params = Inr ()
   \<and> check example_primitives (height0_auxpow example_primitives 0x1234 1) 0x1234 1
       example_params = Inl CoinbaseLinkMismatch
   \<and> check example_primitives (height0_auxpow example_primitives 0x1234 1) 0x1234 1
       example_params \<noteq> Inl IndexMismatch"
  by code_simp

text \<open>
  C6, amended: with an empty chain branch and chain index 0, \<^verbatim>\<open>check\<close> never returns
  \<open>IndexMismatch\<close>, whatever nonce the coinbase script embeds: at height 0 the expected
  index is 0 for every nonce.
\<close>

theorem height0_never_IndexMismatch:
  assumes "vChainMerkleBranch a = []" and "nChainIndex a = 0"
  shows "check E a auxBlockHash chainId P \<noteq> Inl IndexMismatch"
  using assms
  by (auto simp: check_def Let_def getExpectedIndex_height0 extract_commitment_def
      split: sum.splits option.splits if_splits)

theorem height0_never_IndexMismatch_witness:
  "vChainMerkleBranch (height0_auxpow example_primitives 0x1234 1) = []
   \<and> nChainIndex (height0_auxpow example_primitives 0x1234 1) = 0
   \<and> check example_primitives (height0_auxpow example_primitives 0x1234 1) 0x1234 1
       example_params \<noteq> Inl IndexMismatch"
proof -
  have b: "vChainMerkleBranch (height0_auxpow example_primitives 0x1234 1) = []"
    and i: "nChainIndex (height0_auxpow example_primitives 0x1234 1) = 0"
    by (simp_all add: height0_auxpow_def)
  from height0_never_IndexMismatch [OF b i] b i show ?thesis by blast
qed

end
